theory Spec2Isabelle
  imports Main "HOL-Library.Word"
begin

section \<open>Sample labels and cross-validation chunks\<close>

text \<open>
  Notebook \<^verbatim>\<open>05b_machine_learning_nilearn.ipynb\<close> builds two arrays by hand:
  \<^verbatim>\<open>
  labels = np.ravel([[['closed'] * 4, ['open'] * 4] for i in range(48)])
  chunks = np.ravel([[i] * 64 for i in range(6)])
  \<close>
  A nested Python list is a nested HOL list; \<^verbatim>\<open>np.ravel\<close> flattens it in row-major
  order, \<^verbatim>\<open>[x] * n\<close> is \<open>replicate n x\<close>, and the comprehension over
  \<^verbatim>\<open>range(n)\<close> is a \<open>map\<close> over the integers \<open>0, ..., n - 1\<close>.
\<close>

definition range_py :: "nat \<Rightarrow> int list" where
  "range_py n = map int [0..<n]"

definition ravel2 :: "'a list list \<Rightarrow> 'a list" where
  "ravel2 rows = concat rows"

definition ravel3 :: "'a list list list \<Rightarrow> 'a list" where
  "ravel3 planes = concat (concat planes)"

definition labels :: "string list" where
  "labels = ravel3 (map (\<lambda>i. [replicate 4 ''closed'', replicate 4 ''open'']) (range_py 48))"

definition chunks :: "int list" where
  "chunks = ravel2 (map (\<lambda>i. replicate 64 i) (range_py 6))"

text \<open>
  The notebook selects the samples of one chunk with a boolean mask:
  \<^verbatim>\<open>
  mask_test = chunks == 5
  y_test = labels[mask_test]
  \<close>
  \<open>eq_mask\<close> is the elementwise comparison and \<open>index_mask\<close> the boolean-mask indexing,
  which numpy refuses with an \<^verbatim>\<open>IndexError\<close> (here \<open>None\<close>) when the mask and the array
  differ in length.
\<close>

definition eq_mask :: "'a list \<Rightarrow> 'a \<Rightarrow> bool list" where
  "eq_mask xs k = map (\<lambda>x. x = k) xs"

definition index_mask :: "'a list \<Rightarrow> bool list \<Rightarrow> 'a list option" where
  "index_mask xs bs =
     (if length bs = length xs then Some (map fst (filter snd (zip xs bs))) else None)"

section \<open>The mask function\<close>

text \<open>
  The one function the notebooks define is \<^verbatim>\<open>get_mask\<close>:
  \<^verbatim>\<open>
  def get_mask(mask_type):
      brain = '/home/neuro/workshop/notebooks/data/templates/MNI152_T1_1mm_brain.nii.gz'
      eyes = '/home/neuro/workshop/notebooks/data/templates/MNI152_T1_1mm_eye.nii.gz'
      if mask_type == 'brain':
          img_resampled = resample_to_img(brain, func)
      elif mask_type == 'eyes':
          img_resampled = resample_to_img(eyes, func)
      elif mask_type == 'both':
          img_roi = math_img("img1 + img2", img1=brain, img2=eyes)
          img_resampled = resample_to_img(img_roi, func)
      data_binary = np.array(img_resampled.get_fdata()>=10, dtype=np.int8)
      data_dilated = binary_dilation(data_binary, iterations=1).astype(np.int8)
      mask = nb.Nifti1Image(data_dilated, img_resampled.affine, img_resampled.header)
      mask.set_data_dtype('i1')
      return mask
  \<close>
  It calls nilearn, numpy, scipy and nibabel. Those libraries are not part of the
  repository, so the model takes the calls that read files or compute images
  (\<^verbatim>\<open>resample_to_img\<close>, \<^verbatim>\<open>math_img\<close>, \<^verbatim>\<open>binary_dilation\<close>) as parameters, collected
  in a record. The first two load images from disk and may raise; what they raise is a
  value of the type \<open>'e\<close>, which the model wraps in \<open>LibraryError\<close> to keep it apart
  from the exception Python itself raises when a local variable is read before it was
  assigned.
\<close>

datatype 'e exn = UnboundLocalError string | LibraryError 'e

text \<open>
  An array is its shape and its elements in row-major order. The only array operations
  of \<^verbatim>\<open>get_mask\<close> are elementwise: the comparison \<^verbatim>\<open>>= 10\<close> and the two conversions to
  \<^verbatim>\<open>np.int8\<close>, modelled as \<open>8 word\<close>, of a boolean array (\<open>True\<close> becomes 1,
  \<open>False\<close> becomes 0).
\<close>

record 'v ndarray =
  shape :: "nat list"
  elems :: "'v list"

definition map_ndarray :: "('v \<Rightarrow> 'w) \<Rightarrow> 'v ndarray \<Rightarrow> 'w ndarray" where
  "map_ndarray f a = \<lparr>shape = shape a, elems = map f (elems a)\<rparr>"

definition ge_scalar :: "'v::ord ndarray \<Rightarrow> 'v \<Rightarrow> bool ndarray" where
  "ge_scalar a c = map_ndarray (\<lambda>x. x \<ge> c) a"

definition astype_int8 :: "bool ndarray \<Rightarrow> 8 word ndarray" where
  "astype_int8 a = map_ndarray of_bool a"

text \<open>
  A NIfTI image is its voxel array, its affine and its header. Of the header the code
  touches only the declared data type; every other field is carried along in
  \<open>other_fields\<close>. A library function accepts an image or the path of an image file.
  Of nibabel the body uses three operations on an image in memory: \<^verbatim>\<open>get_fdata\<close> reads
  the voxel array, the constructor \<^verbatim>\<open>Nifti1Image\<close> stores its three arguments, and
  \<^verbatim>\<open>set_data_dtype\<close> overwrites the declared data type in the header of the image.
\<close>

record 'h nifti_header =
  data_dtype :: string
  other_fields :: 'h

record ('v, 'a, 'h) nifti_image =
  dataobj :: "'v ndarray"
  affine :: 'a
  header :: "'h nifti_header"

datatype ('v, 'a, 'h) niimg = Path string | Img "('v, 'a, 'h) nifti_image"

definition get_fdata :: "('v, 'a, 'h) nifti_image \<Rightarrow> 'v ndarray" where
  "get_fdata img = dataobj img"

definition Nifti1Image ::
  "'v ndarray \<Rightarrow> 'a \<Rightarrow> 'h nifti_header \<Rightarrow> ('v, 'a, 'h) nifti_image" where
  "Nifti1Image d a h = \<lparr>dataobj = d, affine = a, header = h\<rparr>"

definition set_data_dtype ::
  "('v, 'a, 'h) nifti_image \<Rightarrow> string \<Rightarrow> ('v, 'a, 'h) nifti_image" where
  "set_data_dtype img dt = img\<lparr>header := (header img)\<lparr>data_dtype := dt\<rparr>\<rparr>"

record ('v, 'a, 'h, 'e) library =
  resample_to_img ::
    "('v, 'a, 'h) niimg \<Rightarrow> ('v, 'a, 'h) niimg \<Rightarrow> 'e + ('v, 'a, 'h) nifti_image"
  math_img ::
    "string \<Rightarrow> (string \<times> ('v, 'a, 'h) niimg) list \<Rightarrow> 'e + ('v, 'a, 'h) nifti_image"
  binary_dilation :: "8 word ndarray \<Rightarrow> nat \<Rightarrow> bool ndarray"

definition func :: string where
  "func = ''/home/neuro/workshop/notebooks/data/dataset_ML.nii.gz''"

definition brain :: string where
  "brain = ''/home/neuro/workshop/notebooks/data/templates/MNI152_T1_1mm_brain.nii.gz''"

definition eyes :: string where
  "eyes = ''/home/neuro/workshop/notebooks/data/templates/MNI152_T1_1mm_eye.nii.gz''"

text \<open>
  The \<^verbatim>\<open>if\<close>/\<^verbatim>\<open>elif\<close> chain has no \<^verbatim>\<open>else\<close>: after it the local variable
  \<^verbatim>\<open>img_resampled\<close> is bound (\<open>Some\<close>) or still unbound (\<open>None\<close>). The argument is
  a string, as at every call site; the chain only compares it with three string literals.
\<close>

definition load_region_of_interest ::
  "('v, 'a, 'h, 'e) library \<Rightarrow> string \<Rightarrow> 'e exn + ('v, 'a, 'h) nifti_image option" where
  "load_region_of_interest lib mask_type =
     (if mask_type = ''brain'' then
        (case resample_to_img lib (Path brain) (Path func) of
           Inl e \<Rightarrow> Inl (LibraryError e)
         | Inr img_resampled \<Rightarrow> Inr (Some img_resampled))
      else if mask_type = ''eyes'' then
        (case resample_to_img lib (Path eyes) (Path func) of
           Inl e \<Rightarrow> Inl (LibraryError e)
         | Inr img_resampled \<Rightarrow> Inr (Some img_resampled))
      else if mask_type = ''both'' then
        (case math_img lib ''img1 + img2'' [(''img1'', Path brain), (''img2'', Path eyes)] of
           Inl e \<Rightarrow> Inl (LibraryError e)
         | Inr img_roi \<Rightarrow>
             (case resample_to_img lib (Img img_roi) (Path func) of
                Inl e \<Rightarrow> Inl (LibraryError e)
              | Inr img_resampled \<Rightarrow> Inr (Some img_resampled)))
      else Inr None)"

text \<open>
  The rest of the body reads \<^verbatim>\<open>img_resampled\<close>; reading it unbound raises
  \<^verbatim>\<open>UnboundLocalError\<close>. The function has no \<^verbatim>\<open>try\<close>: an exception of a library call
  leaves it as it is.
\<close>

definition get_mask ::
  "('v::{ord,numeral}, 'a, 'h, 'e) library \<Rightarrow> string \<Rightarrow> 'e exn + (8 word, 'a, 'h) nifti_image" where
  "get_mask lib mask_type =
     (case load_region_of_interest lib mask_type of
        Inl e \<Rightarrow> Inl e
      | Inr None \<Rightarrow> Inl (UnboundLocalError ''img_resampled'')
      | Inr (Some img_resampled) \<Rightarrow>
          (let data_binary = astype_int8 (ge_scalar (get_fdata img_resampled) 10);
               data_dilated = astype_int8 (binary_dilation lib data_binary 1);
               mask = Nifti1Image data_dilated (affine img_resampled) (header img_resampled);
               mask = set_data_dtype mask ''i1''
           in Inr mask))"

text \<open>
  The notebook calls the function three times, each time as \<^verbatim>\<open>get_mask('both')\<close>:
  for the region plot, for the SpaceNet decoder and for the searchlight.
\<close>

definition get_mask_calls :: "string list" where
  "get_mask_calls = [''both'', ''both'', ''both'']"

subsection \<open>Small libraries to run the function on\<close>

text \<open>
  Voxels are integers, the affine is a name, an exception is its name. In
  \<open>demo_library\<close> both template files exist; \<^verbatim>\<open>resample_to_img\<close> returns the source
  image as it is, \<^verbatim>\<open>math_img\<close> adds its two arguments voxel by voxel and the dilation
  marks every nonzero voxel and its right neighbour. In \<open>offline_library\<close> no file
  exists.
\<close>

definition demo_image :: "int list \<Rightarrow> (int, string, nat) nifti_image" where
  "demo_image vs =
     \<lparr>dataobj = \<lparr>shape = [length vs], elems = vs\<rparr>, affine = ''MNI152'',
      header = \<lparr>data_dtype = ''f8'', other_fields = length vs\<rparr>\<rparr>"

definition demo_files :: "string \<Rightarrow> (int, string, nat) nifti_image option" where
  "demo_files p =
     (if p = brain then Some (demo_image [0, 0, 9, 10, 250, 0])
      else if p = eyes then Some (demo_image [40, 0, 0, 0, 0, 0])
      else None)"

definition demo_load ::
  "(string \<Rightarrow> (int, string, nat) nifti_image option) \<Rightarrow> (int, string, nat) niimg
     \<Rightarrow> string + (int, string, nat) nifti_image" where
  "demo_load files x =
     (case x of
        Img i \<Rightarrow> Inr i
      | Path p \<Rightarrow> (case files p of None \<Rightarrow> Inl ''FileNotFoundError'' | Some i \<Rightarrow> Inr i))"

fun demo_dilate :: "bool \<Rightarrow> 8 word list \<Rightarrow> bool list" where
  "demo_dilate prev [] = []"
| "demo_dilate prev (x # xs) = (prev \<or> x \<noteq> 0) # demo_dilate (x \<noteq> 0) xs"

definition demo_library_on ::
  "(string \<Rightarrow> (int, string, nat) nifti_image option) \<Rightarrow> (int, string, nat, string) library" where
  "demo_library_on files =
     \<lparr>resample_to_img = (\<lambda>source target. demo_load files source),
      math_img = (\<lambda>formula args.
        (case args of
           [(n1, x1), (n2, x2)] \<Rightarrow>
             (case demo_load files x1 of
                Inl e \<Rightarrow> Inl e
              | Inr i1 \<Rightarrow>
                  (case demo_load files x2 of
                     Inl e \<Rightarrow> Inl e
                   | Inr i2 \<Rightarrow>
                       Inr (i1\<lparr>dataobj := \<lparr>shape = shape (dataobj i1),
                          elems = map2 (+) (elems (dataobj i1)) (elems (dataobj i2))\<rparr>\<rparr>)))
         | _ \<Rightarrow> Inl ''ValueError'')),
      binary_dilation = (\<lambda>a n. \<lparr>shape = shape a, elems = demo_dilate False (elems a)\<rparr>)\<rparr>"

definition demo_library :: "(int, string, nat, string) library" where
  "demo_library = demo_library_on demo_files"

definition offline_library :: "(int, string, nat, string) library" where
  "offline_library = demo_library_on (\<lambda>p. None)"

text \<open>
  In \<open>unresampled_library\<close> the files exist and \<^verbatim>\<open>math_img\<close> works, but every
  resampling fails.
\<close>

definition unresampled_library :: "(int, string, nat, string) library" where
  "unresampled_library = demo_library\<lparr>resample_to_img := (\<lambda>source target. Inl ''ValueError'')\<rparr>"

section \<open>Properties of the labels and chunks\<close>

lemma chunks_values: "set chunks = {0, 1, 2, 3, 4, 5}"
  by code_simp

lemma chunk_sizes: "map (count_list chunks) [0, 1, 2, 3, 4, 5] = [64, 64, 64, 64, 64, 64]"
  by code_simp

lemma chunk_label_counts:
  "map (\<lambda>k. map_option (\<lambda>sel. (count_list sel ''closed'', count_list sel ''open''))
               (index_mask labels (eq_mask chunks k))) [0, 1, 2, 3, 4, 5]
   = [Some (32, 32), Some (32, 32), Some (32, 32), Some (32, 32), Some (32, 32), Some (32, 32)]"
  by code_simp

text \<open>
  C5. \<open>labels\<close> has 384 entries, 48 repetitions of the block of four \<open>''closed''\<close>
  followed by four \<open>''open''\<close>, hence 192 entries of each label. \<open>chunks\<close> has 384
  entries, 64 copies of each integer from 0 to 5, in nondecreasing order. The two arrays
  have the same length, and the boolean mask of every chunk value selects exactly 32
  \<open>''closed''\<close> and 32 \<open>''open''\<close> labels.
\<close>

theorem labels_chunks_layout:
  "length labels = 384
   \<and> labels = concat (replicate 48 (replicate 4 ''closed'' @ replicate 4 ''open''))
   \<and> count_list labels ''closed'' = 192 \<and> count_list labels ''open'' = 192
   \<and> length chunks = 384
   \<and> set chunks = {0, 1, 2, 3, 4, 5}
   \<and> (\<forall>k \<in> set chunks. count_list chunks k = 64)
   \<and> sorted chunks
   \<and> length labels = length chunks
   \<and> (\<forall>k \<in> set chunks. \<exists>sel.
          index_mask labels (eq_mask chunks k) = Some sel
        \<and> count_list sel ''closed'' = 32 \<and> count_list sel ''open'' = 32)"
proof -
  have l1: "length labels = 384" by code_simp
  have l2: "labels = concat (replicate 48 (replicate 4 ''closed'' @ replicate 4 ''open''))"
    by code_simp
  have l3: "count_list labels ''closed'' = 192" by code_simp
  have l4: "count_list labels ''open'' = 192" by code_simp
  have c1: "length chunks = 384" by code_simp
  have c2: "\<forall>k \<in> set chunks. count_list chunks k = 64"
    using chunk_sizes unfolding chunks_values by simp
  have c3: "sorted chunks" by code_simp
  have s: "\<forall>k \<in> set chunks. \<exists>sel.
          index_mask labels (eq_mask chunks k) = Some sel
        \<and> count_list sel ''closed'' = 32 \<and> count_list sel ''open'' = 32"
    using chunk_label_counts unfolding chunks_values by auto
  from l1 l2 l3 l4 c1 c2 c3 s chunks_values show ?thesis by simp
qed

theorem labels_chunks_layout_witness:
  "(5::int) \<in> set chunks
   \<and> count_list chunks 5 = 64
   \<and> (\<exists>sel. index_mask labels (eq_mask chunks 5) = Some sel
        \<and> count_list sel ''closed'' = 32 \<and> count_list sel ''open'' = 32)"
proof -
  have m: "(5::int) \<in> set chunks" unfolding chunks_values by simp
  with labels_chunks_layout show ?thesis by blast
qed

section \<open>Properties of the mask function\<close>

text \<open>
  \<^verbatim>\<open>get_mask\<close> is the only function either notebook defines, and its \<^verbatim>\<open>if\<close> chain is
  the only branch; no cell contains a loop statement, a \<^verbatim>\<open>try\<close> or a \<^verbatim>\<open>raise\<close>.
  Every other cell is a sequence of top-level statements: library calls, subscripts of
  their results, and prints.
\<close>

subsection \<open>The three outcomes of the body\<close>

lemma of_bool_int8_binary: "(of_bool b :: 8 word) \<in> {0, 1}"
  by (cases b) simp_all

lemma astype_int8_binary: "set (elems (astype_int8 a)) \<subseteq> {0, 1}"
  using of_bool_int8_binary by (auto simp: astype_int8_def map_ndarray_def)

lemma get_mask_bound:
  "load_region_of_interest lib mask_type = Inr (Some img) \<Longrightarrow>
   get_mask lib mask_type =
     Inr \<lparr>dataobj = astype_int8 (binary_dilation lib (astype_int8 (ge_scalar (get_fdata img) 10)) 1),
          affine = affine img,
          header = (header img)\<lparr>data_dtype := ''i1''\<rparr>\<rparr>"
  by (simp add: get_mask_def Nifti1Image_def set_data_dtype_def)

lemma get_mask_unbound:
  "load_region_of_interest lib mask_type = Inr None \<Longrightarrow>
   get_mask lib mask_type = Inl (UnboundLocalError ''img_resampled'')"
  by (simp add: get_mask_def)

lemma get_mask_raised:
  "load_region_of_interest lib mask_type = Inl e \<Longrightarrow> get_mask lib mask_type = Inl e"
  by (simp add: get_mask_def)

lemma get_mask_returns_iff:
  "(\<exists>result. get_mask lib mask_type = Inr result)
     \<longleftrightarrow> (\<exists>img. load_region_of_interest lib mask_type = Inr (Some img))"
  by (auto simp: get_mask_def Let_def split: sum.splits option.splits)

subsection \<open>The branch chain\<close>

lemma load_unbound_iff:
  "load_region_of_interest lib mask_type = Inr None
     \<longleftrightarrow> mask_type \<notin> {''brain'', ''eyes'', ''both''}"
  by (auto simp: load_region_of_interest_def split: sum.splits)

lemma load_both:
  "load_region_of_interest lib ''both'' =
     (case math_img lib ''img1 + img2'' [(''img1'', Path brain), (''img2'', Path eyes)] of
        Inl e \<Rightarrow> Inl (LibraryError e)
      | Inr img_roi \<Rightarrow>
          (case resample_to_img lib (Img img_roi) (Path func) of
             Inl e \<Rightarrow> Inl (LibraryError e)
           | Inr img_resampled \<Rightarrow> Inr (Some img_resampled)))"
  by (simp add: load_region_of_interest_def)

lemma load_bound_source:
  assumes "load_region_of_interest lib mask_type = Inr (Some img)"
  shows "\<exists>source. resample_to_img lib source (Path func) = Inr img
     \<and> (mask_type = ''brain'' \<and> source = Path brain
        \<or> mask_type = ''eyes'' \<and> source = Path eyes
        \<or> mask_type = ''both''
          \<and> (\<exists>img_roi. math_img lib ''img1 + img2'' [(''img1'', Path brain), (''img2'', Path eyes)]
                = Inr img_roi \<and> source = Img img_roi))"
  using assms
  by (auto simp: load_region_of_interest_def split: if_splits sum.splits)

subsection \<open>The calls the notebook makes\<close>

lemma get_mask_calls_valid: "set get_mask_calls \<subseteq> {''brain'', ''eyes'', ''both''}"
  by (simp add: get_mask_calls_def)

lemma get_mask_failure_cases:
  assumes "get_mask lib mask_type = Inl e"
  shows "load_region_of_interest lib mask_type = Inl e \<and> (\<exists>l. e = LibraryError l)
     \<or> mask_type \<notin> {''brain'', ''eyes'', ''both''} \<and> e = UnboundLocalError ''img_resampled''"
proof (cases "load_region_of_interest lib mask_type")
  case (Inl e')
  with assms have "e' = e" by (simp add: get_mask_def)
  moreover from Inl have "\<exists>l. e' = LibraryError l"
    by (auto simp: load_region_of_interest_def split: if_splits sum.splits)
  ultimately show ?thesis using Inl by simp
next
  case (Inr bound)
  with assms have "bound = None" and "e = UnboundLocalError ''img_resampled''"
    by (auto simp: get_mask_def Let_def split: option.splits)
  with Inr show ?thesis by (simp add: load_unbound_iff)
qed

lemma get_mask_calls_bind_image:
  "mask_type \<in> set get_mask_calls \<Longrightarrow>
   get_mask lib mask_type \<noteq> Inl (UnboundLocalError name)"
  by (auto simp: get_mask_calls_def get_mask_def load_both split: sum.splits)

subsection \<open>Running the function\<close>

lemmas demo_defs = demo_library_def offline_library_def unresampled_library_def
  demo_library_on_def demo_load_def demo_files_def demo_image_def brain_def eyes_def func_def

lemma demo_both:
  "get_mask demo_library ''both'' =
     Inr \<lparr>dataobj = \<lparr>shape = [6], elems = [1, 1, 0, 1, 1, 1]\<rparr>, affine = ''MNI152'',
          header = \<lparr>data_dtype = ''i1'', other_fields = 6\<rparr>\<rparr>"
  by code_simp

lemma demo_brain:
  "get_mask demo_library ''brain'' =
     Inr \<lparr>dataobj = \<lparr>shape = [6], elems = [0, 0, 0, 1, 1, 1]\<rparr>, affine = ''MNI152'',
          header = \<lparr>data_dtype = ''i1'', other_fields = 6\<rparr>\<rparr>"
  by code_simp

lemma demo_eyes:
  "get_mask demo_library ''eyes'' =
     Inr \<lparr>dataobj = \<lparr>shape = [6], elems = [1, 1, 0, 0, 0, 0]\<rparr>, affine = ''MNI152'',
          header = \<lparr>data_dtype = ''i1'', other_fields = 6\<rparr>\<rparr>"
  by code_simp

subsection \<open>Raising and returning\<close>

text \<open>
  C2. For every argument \<open>mask_type\<close> other than \<open>''brain''\<close>, \<open>''eyes''\<close> and
  \<open>''both''\<close>, \<^verbatim>\<open>get_mask\<close> raises before it returns: no branch binds
  \<^verbatim>\<open>img_resampled\<close> and the binarization reads it, whatever the libraries do. For each
  of the three valid values, when the library calls of its branch load their images, the
  function reaches its \<^verbatim>\<open>return\<close> and returns a mask image.
\<close>

theorem get_mask_raises_or_returns:
  "(mask_type \<notin> {''brain'', ''eyes'', ''both''} \<longrightarrow>
      get_mask lib mask_type = Inl (UnboundLocalError ''img_resampled''))
   \<and> (resample_to_img lib (Path brain) (Path func) = Inr r1 \<longrightarrow>
      (\<exists>mask. get_mask lib ''brain'' = Inr mask))
   \<and> (resample_to_img lib (Path eyes) (Path func) = Inr r2 \<longrightarrow>
      (\<exists>mask. get_mask lib ''eyes'' = Inr mask))
   \<and> (math_img lib ''img1 + img2'' [(''img1'', Path brain), (''img2'', Path eyes)] = Inr roi
      \<and> resample_to_img lib (Img roi) (Path func) = Inr r3 \<longrightarrow>
      (\<exists>mask. get_mask lib ''both'' = Inr mask))"
proof (intro conjI impI)
  assume "mask_type \<notin> {''brain'', ''eyes'', ''both''}"
  then have "load_region_of_interest lib mask_type = Inr None"
    by (simp add: load_unbound_iff)
  then show "get_mask lib mask_type = Inl (UnboundLocalError ''img_resampled'')"
    by (rule get_mask_unbound)
next
  assume "resample_to_img lib (Path brain) (Path func) = Inr r1"
  then have "load_region_of_interest lib ''brain'' = Inr (Some r1)"
    by (simp add: load_region_of_interest_def)
  then show "\<exists>mask. get_mask lib ''brain'' = Inr mask"
    by (simp add: get_mask_bound)
next
  assume "resample_to_img lib (Path eyes) (Path func) = Inr r2"
  then have "load_region_of_interest lib ''eyes'' = Inr (Some r2)"
    by (simp add: load_region_of_interest_def)
  then show "\<exists>mask. get_mask lib ''eyes'' = Inr mask"
    by (simp add: get_mask_bound)
next
  assume "math_img lib ''img1 + img2'' [(''img1'', Path brain), (''img2'', Path eyes)] = Inr roi
      \<and> resample_to_img lib (Img roi) (Path func) = Inr r3"
  then have "load_region_of_interest lib ''both'' = Inr (Some r3)"
    by (simp add: load_both)
  then show "\<exists>mask. get_mask lib ''both'' = Inr mask"
    by (simp add: get_mask_bound)
qed

theorem get_mask_raises_or_returns_witness:
  "''nose'' \<notin> {''brain'', ''eyes'', ''both''}
   \<and> get_mask demo_library ''nose'' = Inl (UnboundLocalError ''img_resampled'')
   \<and> resample_to_img demo_library (Path brain) (Path func) = Inr (demo_image [0, 0, 9, 10, 250, 0])
   \<and> (\<exists>mask. get_mask demo_library ''brain'' = Inr mask)
   \<and> resample_to_img demo_library (Path eyes) (Path func) = Inr (demo_image [40, 0, 0, 0, 0, 0])
   \<and> (\<exists>mask. get_mask demo_library ''eyes'' = Inr mask)
   \<and> math_img demo_library ''img1 + img2'' [(''img1'', Path brain), (''img2'', Path eyes)]
       = Inr (demo_image [40, 0, 9, 10, 250, 0])
   \<and> resample_to_img demo_library (Img (demo_image [40, 0, 9, 10, 250, 0])) (Path func)
       = Inr (demo_image [40, 0, 9, 10, 250, 0])
   \<and> (\<exists>mask. get_mask demo_library ''both'' = Inr mask)"
proof -
  have b: "resample_to_img demo_library (Path brain) (Path func)
       = Inr (demo_image [0, 0, 9, 10, 250, 0])"
    by (simp add: demo_defs)
  have e: "resample_to_img demo_library (Path eyes) (Path func)
       = Inr (demo_image [40, 0, 0, 0, 0, 0])"
    by (simp add: demo_defs)
  have m: "math_img demo_library ''img1 + img2'' [(''img1'', Path brain), (''img2'', Path eyes)]
       = Inr (demo_image [40, 0, 9, 10, 250, 0])"
    by (simp add: demo_defs)
  have r: "resample_to_img demo_library (Img (demo_image [40, 0, 9, 10, 250, 0])) (Path func)
       = Inr (demo_image [40, 0, 9, 10, 250, 0])"
    by (simp add: demo_defs)
  have n: "''nose'' \<notin> {''brain'', ''eyes'', ''both''}" by simp
  from get_mask_raises_or_returns
    [of "''nose''" demo_library "demo_image [0, 0, 9, 10, 250, 0]" "demo_image [40, 0, 0, 0, 0, 0]"
        "demo_image [40, 0, 9, 10, 250, 0]" "demo_image [40, 0, 9, 10, 250, 0]"]
    b e m r n
  show ?thesis by blast
qed

subsection \<open>Exceptions of the libraries\<close>

text \<open>
  What \<^verbatim>\<open>get_mask\<close> does with an exception of a library call: when a call of the
  branch taken raises, the function raises that same exception to its caller, and in the
  calls the notebook makes every failure of \<^verbatim>\<open>get_mask\<close> is such an exception. This
  is a fact about the one function only. The other cells also subscript what a library
  returned (\<^verbatim>\<open>layout.get()[15]\<close>, \<^verbatim>\<open>layout2.get(suffix='physio')[0]\<close>,
  \<^verbatim>\<open>null_cv_scores[0]\<close>); whether those fail depends on datasets and libraries
  outside the repository, and they are not modelled.
\<close>

lemma get_mask_propagates_library_errors:
  "(resample_to_img lib (Path brain) (Path func) = Inl l \<longrightarrow>
      get_mask lib ''brain'' = Inl (LibraryError l))
   \<and> (resample_to_img lib (Path eyes) (Path func) = Inl l \<longrightarrow>
      get_mask lib ''eyes'' = Inl (LibraryError l))
   \<and> (math_img lib ''img1 + img2'' [(''img1'', Path brain), (''img2'', Path eyes)] = Inl l \<longrightarrow>
      get_mask lib ''both'' = Inl (LibraryError l))
   \<and> (math_img lib ''img1 + img2'' [(''img1'', Path brain), (''img2'', Path eyes)] = Inr roi
      \<and> resample_to_img lib (Img roi) (Path func) = Inl l \<longrightarrow>
      get_mask lib ''both'' = Inl (LibraryError l))
   \<and> (mask_type \<in> set get_mask_calls \<and> get_mask lib mask_type = Inl e \<longrightarrow>
      (\<exists>l'. e = LibraryError l'
         \<and> (math_img lib ''img1 + img2'' [(''img1'', Path brain), (''img2'', Path eyes)] = Inl l'
            \<or> (\<exists>roi'. math_img lib ''img1 + img2'' [(''img1'', Path brain), (''img2'', Path eyes)]
                    = Inr roi'
                 \<and> resample_to_img lib (Img roi') (Path func) = Inl l'))))"
proof (intro conjI impI)
  assume "resample_to_img lib (Path brain) (Path func) = Inl l"
  then have "load_region_of_interest lib ''brain'' = Inl (LibraryError l)"
    by (simp add: load_region_of_interest_def)
  then show "get_mask lib ''brain'' = Inl (LibraryError l)"
    by (rule get_mask_raised)
next
  assume "resample_to_img lib (Path eyes) (Path func) = Inl l"
  then have "load_region_of_interest lib ''eyes'' = Inl (LibraryError l)"
    by (simp add: load_region_of_interest_def)
  then show "get_mask lib ''eyes'' = Inl (LibraryError l)"
    by (rule get_mask_raised)
next
  assume "math_img lib ''img1 + img2'' [(''img1'', Path brain), (''img2'', Path eyes)] = Inl l"
  then have "load_region_of_interest lib ''both'' = Inl (LibraryError l)"
    by (simp add: load_both)
  then show "get_mask lib ''both'' = Inl (LibraryError l)"
    by (rule get_mask_raised)
next
  assume "math_img lib ''img1 + img2'' [(''img1'', Path brain), (''img2'', Path eyes)] = Inr roi
      \<and> resample_to_img lib (Img roi) (Path func) = Inl l"
  then have "load_region_of_interest lib ''both'' = Inl (LibraryError l)"
    by (simp add: load_both)
  then show "get_mask lib ''both'' = Inl (LibraryError l)"
    by (rule get_mask_raised)
next
  assume a: "mask_type \<in> set get_mask_calls \<and> get_mask lib mask_type = Inl e"
  then have t: "mask_type = ''both''"
    by (simp add: get_mask_calls_def)
  from a t have "load_region_of_interest lib ''both'' = Inl e"
    by (auto simp: get_mask_def Let_def load_both split: sum.splits option.splits)
  then show "\<exists>l'. e = LibraryError l'
         \<and> (math_img lib ''img1 + img2'' [(''img1'', Path brain), (''img2'', Path eyes)] = Inl l'
            \<or> (\<exists>roi'. math_img lib ''img1 + img2'' [(''img1'', Path brain), (''img2'', Path eyes)]
                    = Inr roi'
                 \<and> resample_to_img lib (Img roi') (Path func) = Inl l'))"
    by (auto simp: load_both split: sum.splits)
qed

lemma get_mask_propagates_library_errors_example:
  "resample_to_img offline_library (Path brain) (Path func) = Inl ''FileNotFoundError''
   \<and> get_mask offline_library ''brain'' = Inl (LibraryError ''FileNotFoundError'')
   \<and> resample_to_img offline_library (Path eyes) (Path func) = Inl ''FileNotFoundError''
   \<and> get_mask offline_library ''eyes'' = Inl (LibraryError ''FileNotFoundError'')
   \<and> math_img offline_library ''img1 + img2'' [(''img1'', Path brain), (''img2'', Path eyes)]
       = Inl ''FileNotFoundError''
   \<and> get_mask offline_library ''both'' = Inl (LibraryError ''FileNotFoundError'')
   \<and> math_img unresampled_library ''img1 + img2'' [(''img1'', Path brain), (''img2'', Path eyes)]
       = Inr (demo_image [40, 0, 9, 10, 250, 0])
   \<and> resample_to_img unresampled_library (Img (demo_image [40, 0, 9, 10, 250, 0])) (Path func)
       = Inl ''ValueError''
   \<and> ''both'' \<in> set get_mask_calls
   \<and> get_mask unresampled_library ''both'' = Inl (LibraryError ''ValueError'')"
proof -
  have b: "resample_to_img offline_library (Path brain) (Path func) = Inl ''FileNotFoundError''"
    by (simp add: demo_defs)
  have e: "resample_to_img offline_library (Path eyes) (Path func) = Inl ''FileNotFoundError''"
    by (simp add: demo_defs)
  have m: "math_img offline_library ''img1 + img2'' [(''img1'', Path brain), (''img2'', Path eyes)]
       = Inl ''FileNotFoundError''"
    by (simp add: demo_defs)
  have m': "math_img unresampled_library ''img1 + img2''
       [(''img1'', Path brain), (''img2'', Path eyes)] = Inr (demo_image [40, 0, 9, 10, 250, 0])"
    by (simp add: demo_defs)
  have r': "resample_to_img unresampled_library (Img (demo_image [40, 0, 9, 10, 250, 0]))
       (Path func) = Inl ''ValueError''"
    by (simp add: demo_defs)
  have c: "''both'' \<in> set get_mask_calls"
    by (simp add: get_mask_calls_def)
  note off = get_mask_propagates_library_errors
    [of offline_library "''FileNotFoundError''" "demo_image []" "''both''"
        "LibraryError ''FileNotFoundError''"]
  note unr = get_mask_propagates_library_errors
    [of unresampled_library "''ValueError''" "demo_image [40, 0, 9, 10, 250, 0]" "''both''"
        "LibraryError ''ValueError''"]
  from off unr b e m m' r' c show ?thesis by blast
qed

subsection \<open>The returned image\<close>

text \<open>
  C7. For every valid argument, the image \<^verbatim>\<open>get_mask\<close> returns holds only the voxel
  values 0 and 1: it is the \<^verbatim>\<open>int8\<close> conversion of one dilation
  (\<^verbatim>\<open>iterations=1\<close>) of the template binarized at \<^verbatim>\<open>>= 10\<close>, and its declared data type
  is \<^verbatim>\<open>int8\<close> (\<^verbatim>\<open>'i1'\<close>). Its affine is the affine of the template resampled to the
  functional dataset, and its header is that image's header with the data type set to
  \<^verbatim>\<open>'i1'\<close>. A call that returns is a call with a valid argument, and the theorem names
  the resampling of its branch.
\<close>

theorem get_mask_binary_int8:
  assumes "get_mask lib mask_type = Inr result"
  shows "set (elems (dataobj result)) \<subseteq> {0, 1}
     \<and> data_dtype (header result) = ''i1''
     \<and> (\<exists>source img_resampled.
          resample_to_img lib source (Path func) = Inr img_resampled
        \<and> (mask_type = ''brain'' \<and> source = Path brain
           \<or> mask_type = ''eyes'' \<and> source = Path eyes
           \<or> mask_type = ''both''
             \<and> (\<exists>img_roi. math_img lib ''img1 + img2'' [(''img1'', Path brain), (''img2'', Path eyes)]
                   = Inr img_roi \<and> source = Img img_roi))
        \<and> dataobj result =
            astype_int8 (binary_dilation lib
              (astype_int8 (ge_scalar (get_fdata img_resampled) 10)) 1)
        \<and> affine result = affine img_resampled
        \<and> header result = (header img_resampled)\<lparr>data_dtype := ''i1''\<rparr>)"
proof -
  from assms obtain img where l: "load_region_of_interest lib mask_type = Inr (Some img)"
    using get_mask_returns_iff [of lib mask_type] by blast
  from assms have m: "result =
     \<lparr>dataobj = astype_int8 (binary_dilation lib (astype_int8 (ge_scalar (get_fdata img) 10)) 1),
      affine = affine img, header = (header img)\<lparr>data_dtype := ''i1''\<rparr>\<rparr>"
    by (simp add: get_mask_bound [OF l])
  have v: "set (elems (dataobj result)) \<subseteq> {0, 1}"
    unfolding m using astype_int8_binary by simp
  have d: "data_dtype (header result) = ''i1''"
    unfolding m by simp
  from load_bound_source [OF l] m v d show ?thesis
    by auto
qed

theorem get_mask_binary_int8_witness:
  "get_mask demo_library ''both'' =
     Inr \<lparr>dataobj = \<lparr>shape = [6], elems = [1, 1, 0, 1, 1, 1]\<rparr>, affine = ''MNI152'',
          header = \<lparr>data_dtype = ''i1'', other_fields = 6\<rparr>\<rparr>
   \<and> set (elems (dataobj
         \<lparr>dataobj = \<lparr>shape = [6], elems = [1, 1, 0, 1, 1, 1 :: 8 word]\<rparr>, affine = ''MNI152'',
          header = \<lparr>data_dtype = ''i1'', other_fields = 6 :: nat\<rparr>\<rparr>)) \<subseteq> {0, 1}
   \<and> data_dtype (header
         \<lparr>dataobj = \<lparr>shape = [6], elems = [1, 1, 0, 1, 1, 1 :: 8 word]\<rparr>, affine = ''MNI152'',
          header = \<lparr>data_dtype = ''i1'', other_fields = 6 :: nat\<rparr>\<rparr>) = ''i1''"
  using demo_both get_mask_binary_int8 [OF demo_both]
  by blast

end
